theory Spec2Isabelle
  imports Complex_Main "HOL-Library.Word" "HOL-Library.AList"
begin

section \<open>Python values, errors and dictionaries\<close>

text \<open>
  The JSON-shaped Python values the module handles: decoded request bodies, command
  schemas and reply payloads. A \<open>string\<close> stands for a Python \<open>str\<close>, one \<open>char\<close> per
  code point (so only code points below 256 are represented) and \<open>length\<close> is Python's
  \<open>len\<close>. A float is represented by the rational it denotes; only its truth value and
  its equality with an integer are ever consulted. A dict is an association list in
  insertion order.
\<close>

datatype pyval =
    VNone
  | VBool bool
  | VInt int
  | VFloat rat
  | VStr string
  | VList "pyval list"
  | VDict "(string \<times> pyval) list"

type_synonym pydict = "(string \<times> pyval) list"

type_synonym byte = "8 word"

record response =
  status :: int
  json :: pyval

text \<open>The field an \<open>IndexError\<close> of \<open>_validate_schema\<close> is about (one per raise site).\<close>

datatype schema_field =
    Name_field
  | Description_field
  | Option_name_field
  | Option_description_field
  | Option_choices_field

datatype pyerr =
    TypeError
  | ValueError
  | KeyError string
  | AttributeError
  | NameError
  | IndexError schema_field
  | BadSignatureError
  | JSONDecodeError
  | ExpiredToken
  | InteractionsError string
  | HTTPException response pyval
  | AlreadyRegistered
  | SyntaxError
  | LibraryError

definition dict_get :: "pydict \<Rightarrow> string \<Rightarrow> pyval option" where
  "dict_get d k = map_of d k"

definition dict_set :: "pydict \<Rightarrow> string \<Rightarrow> pyval \<Rightarrow> pydict" where
  \<comment> \<open>\<open>d[k] = v\<close>: an existing key keeps its place, a new one goes last.\<close>
  "dict_set d k v = AList.update k v d"

definition dict_pop :: "pydict \<Rightarrow> string \<Rightarrow> pyval \<Rightarrow> pyval \<times> pydict" where
  \<comment> \<open>\<open>d.pop(k, default)\<close>: the value, and the dict as the call leaves it.\<close>
  "dict_pop d k dflt =
     (case map_of d k of
        None \<Rightarrow> (dflt, d)
      | Some v \<Rightarrow> (v, AList.delete k d))"

definition py_truthy :: "pyval \<Rightarrow> bool" where
  "py_truthy v =
     (case v of
        VNone \<Rightarrow> False
      | VBool b \<Rightarrow> b
      | VInt i \<Rightarrow> i \<noteq> 0
      | VFloat r \<Rightarrow> r \<noteq> 0
      | VStr s \<Rightarrow> s \<noteq> []
      | VList xs \<Rightarrow> xs \<noteq> []
      | VDict d \<Rightarrow> d \<noteq> [])"

definition py_eq_int :: "pyval \<Rightarrow> int \<Rightarrow> bool" where
  \<comment> \<open>\<open>v == n\<close> for an int literal \<open>n\<close>: \<open>True == 1\<close> and \<open>1.0 == 1\<close> hold in Python.\<close>
  "py_eq_int v n =
     (case v of
        VInt i \<Rightarrow> i = n
      | VBool b \<Rightarrow> (if b then 1 else 0) = n
      | VFloat r \<Rightarrow> r = of_int n
      | _ \<Rightarrow> False)"

definition py_len :: "pyval \<Rightarrow> pyerr + nat" where
  "py_len v =
     (case v of
        VStr s \<Rightarrow> Inr (length s)
      | VList xs \<Rightarrow> Inr (length xs)
      | VDict d \<Rightarrow> Inr (length d)
      | _ \<Rightarrow> Inl TypeError)"

definition getitem :: "pyval \<Rightarrow> string \<Rightarrow> pyerr + pyval" where
  \<comment> \<open>\<open>v[k]\<close> with a str key: only a dict can answer.\<close>
  "getitem v k =
     (case v of
        VDict d \<Rightarrow> (case map_of d k of None \<Rightarrow> Inl (KeyError k) | Some x \<Rightarrow> Inr x)
      | _ \<Rightarrow> Inl TypeError)"

definition get_default :: "pyval \<Rightarrow> string \<Rightarrow> pyval \<Rightarrow> pyerr + pyval" where
  \<comment> \<open>\<open>v.get(k, default)\<close>: only a dict has the method.\<close>
  "get_default v k dflt =
     (case v of
        VDict d \<Rightarrow> (case map_of d k of None \<Rightarrow> Inr dflt | Some x \<Rightarrow> Inr x)
      | _ \<Rightarrow> Inl AttributeError)"

definition py_iter :: "pyval \<Rightarrow> pyerr + pyval list" where
  \<comment> \<open>The elements a \<open>for\<close> loop visits.\<close>
  "py_iter v =
     (case v of
        VList xs \<Rightarrow> Inr xs
      | VDict d \<Rightarrow> Inr (map (VStr \<circ> fst) d)
      | VStr s \<Rightarrow> Inr (map (\<lambda>c. VStr [c]) s)
      | _ \<Rightarrow> Inl TypeError)"

definition digit_char :: "nat \<Rightarrow> char" where
  "digit_char n = char_of (48 + n)"

fun nat_digits :: "nat \<Rightarrow> string" where
  "nat_digits n = (if n < 10 then [digit_char n] else nat_digits (n div 10) @ [digit_char (n mod 10)])"

declare nat_digits.simps [simp del]

definition str_int :: "int \<Rightarrow> string" where
  \<comment> \<open>\<open>str(n)\<close> for an int.\<close>
  "str_int i = (if i < 0 then CHR ''-'' # nat_digits (nat (- i)) else nat_digits (nat i))"

definition BASE :: string where
  "BASE = ''https://discord.com/api/v8''"

definition USERAGENT :: string where
  "USERAGENT = ''DiscordBot (https://github.com/dragdev-studios/interactions-python, 0.0.1)''"

section \<open>Signature verification\<close>

text \<open>
  \<open>bytes.fromhex\<close>: ASCII whitespace before a pair is skipped, then two hex digits make
  one byte; anything else is a \<open>ValueError\<close>.
\<close>

definition is_space :: "char \<Rightarrow> bool" where
  "is_space c = (let n = (of_char c :: nat) in n = 32 \<or> (9 \<le> n \<and> n \<le> 13))"

definition hex_digit :: "char \<Rightarrow> nat option" where
  "hex_digit c =
     (let n = (of_char c :: nat) in
      if 48 \<le> n \<and> n \<le> 57 then Some (n - 48)
      else if 97 \<le> n \<and> n \<le> 102 then Some (n - 87)
      else if 65 \<le> n \<and> n \<le> 70 then Some (n - 55)
      else None)"

fun fromhex :: "string \<Rightarrow> pyerr + byte list" where
  "fromhex [] = Inr []"
| "fromhex [c] = (if is_space c then Inr [] else Inl ValueError)"
| "fromhex (c # d # ds) =
     (if is_space c then fromhex (d # ds)
      else case hex_digit c of
             None \<Rightarrow> Inl ValueError
           | Some hi \<Rightarrow>
               (case hex_digit d of
                  None \<Rightarrow> Inl ValueError
                | Some lo \<Rightarrow>
                    (case fromhex ds of
                       Inl e \<Rightarrow> Inl e
                     | Inr bs \<Rightarrow> Inr (of_nat (16 * hi + lo) # bs))))"

definition fromhex_arg :: "string option \<Rightarrow> pyerr + byte list" where
  \<comment> \<open>\<open>bytes.fromhex(x)\<close> where \<open>x\<close> may be \<open>None\<close> (a missing header).\<close>
  "fromhex_arg x = (case x of None \<Rightarrow> Inl TypeError | Some s \<Rightarrow> fromhex s)"

definition encode_char :: "char \<Rightarrow> byte list" where
  "encode_char c =
     (let n = (of_char c :: nat) in
      if n < 128 then [of_nat n] else [of_nat (192 + n div 64), of_nat (128 + n mod 64)])"

definition encode :: "string \<Rightarrow> byte list" where
  \<comment> \<open>\<open>s.encode()\<close>: UTF-8.\<close>
  "encode s = concat (map encode_char s)"

text \<open>
  PyNaCl is not part of the repository: its two entry points are parameters.
  \<open>VerifyKey lib k\<close> is the constructor \<open>VerifyKey(k)\<close>; \<open>verify lib vk m s\<close> is
  \<open>vk.verify(m, s)\<close>, which returns normally exactly when the Ed25519 signature \<open>s\<close> of
  message \<open>m\<close> is valid under the key, and raises otherwise (\<open>BadSignatureError\<close> for a
  signature that does not verify).
\<close>

record 'vk nacl =
  VerifyKey :: "byte list \<Rightarrow> pyerr + 'vk"
  verify :: "'vk \<Rightarrow> byte list \<Rightarrow> byte list \<Rightarrow> pyerr + unit"

definition checked :: "'vk nacl \<Rightarrow> string \<Rightarrow> byte list \<Rightarrow> string option \<Rightarrow> pyerr + unit" where
  \<comment> \<open>The two statements inside \<open>Router.verify_key\<close>'s \<open>try\<close>, up to the \<open>return True\<close>.\<close>
  "checked lib key message signature =
     (case fromhex key of
        Inl e \<Rightarrow> Inl e
      | Inr kb \<Rightarrow>
          (case VerifyKey lib kb of
             Inl e \<Rightarrow> Inl e
           | Inr vk \<Rightarrow>
               (case fromhex_arg signature of
                  Inl e \<Rightarrow> Inl e
                | Inr sb \<Rightarrow> verify lib vk message sb)))"

definition verify_key :: "'vk nacl \<Rightarrow> (string \<Rightarrow> string option) \<Rightarrow> byte list \<Rightarrow> string \<Rightarrow> pyerr + bool" where
  \<comment> \<open>\<open>Router.verify_key(headers, body, key=key)\<close>; \<open>headers\<close> is its \<open>get\<close>.
      \<open>timestamp.encode()\<close> is outside the \<open>try\<close>; \<open>except Exception\<close> catches all else.\<close>
  "verify_key lib headers body key =
     (let signature = headers ''X-Signature-Ed25519'';
          timestamp = headers ''X-Signature-Timestamp''
      in case timestamp of
           None \<Rightarrow> Inl AttributeError
         | Some ts \<Rightarrow>
             (let message = encode ts @ body
              in case checked lib key message signature of
                   Inr _ \<Rightarrow> Inr True
                 | Inl _ \<Rightarrow> Inr False))"

definition verify_request :: "'vk nacl \<Rightarrow> string \<Rightarrow> string \<Rightarrow> string \<Rightarrow> string \<Rightarrow> pyerr + bool" where
  \<comment> \<open>\<open>Interaction.verify_request(X_Signature_Ed25519, X_Signature_Timestamp, raw_body,
      public_key)\<close>: the key is built outside the \<open>try\<close>, and the \<open>try\<close> has a single
      handler, \<open>except BadSignatureError\<close>.\<close>
  "verify_request lib X_Signature_Ed25519 X_Signature_Timestamp raw_body public_key =
     (case fromhex public_key of
        Inl e \<Rightarrow> Inl e
      | Inr kb \<Rightarrow>
          (case VerifyKey lib kb of
             Inl e \<Rightarrow> Inl e
           | Inr key \<Rightarrow>
               (let message = encode (X_Signature_Timestamp @ raw_body)
                in case (case fromhex X_Signature_Ed25519 of
                           Inl e \<Rightarrow> Inl e
                         | Inr sb \<Rightarrow> verify lib key message sb) of
                     Inl BadSignatureError \<Rightarrow> Inr False
                   | Inl e \<Rightarrow> Inl e
                   | Inr _ \<Rightarrow> Inr True)))"

section \<open>The outside world: clock, HTTP and the objects callers share\<close>

record request =
  meth :: string
  url :: string
  data :: "pyval option"
  headers :: "(string \<times> string) list"

text \<open>
  \<open>now\<close> is what \<open>datetime.utcnow()\<close> reads, in microseconds (the resolution of a
  \<open>datetime\<close>); \<open>http_log\<close> is every HTTP request issued so far with the response it got;
  \<open>heap\<close> holds the dict objects a caller passes by reference. The platform is a
  parameter \<open>server\<close>: its answer to a request, given how many were issued before.
  The body \<open>data = to_json(d)\<close> is kept as the value \<open>d\<close> that is serialised.
\<close>

record world =
  now :: int
  http_log :: "(request \<times> response) list"
  heap :: "nat \<Rightarrow> pydict"

definition send :: "(nat \<Rightarrow> request \<Rightarrow> response) \<Rightarrow> request \<Rightarrow> world \<Rightarrow> response \<times> world" where
  "send server req w =
     (let resp = server (length (http_log w)) req
      in (resp, w\<lparr>http_log := http_log w @ [(req, resp)]\<rparr>))"

definition auth_headers :: "string \<Rightarrow> (string \<times> string) list" where
  "auth_headers tok = [(''Authorization'', ''Bot '' @ tok), (''User-Agent'', USERAGENT)]"

section \<open>Interaction: the reply builder and the follow-up calls\<close>

text \<open>
  The bot as the module reads it: \<open>bot.user.id\<close> (the bot is logged in),
  \<open>bot.http.token\<close> and \<open>bot.allowed_mentions\<close> (the field \<open>bot_allowed_mentions\<close>). \<open>discord.AllowedMentions\<close> belongs to
  the host library: its \<open>merge\<close> and \<open>to_dict\<close> are parameters.
\<close>

record 'am bot =
  user_id :: int
  http_token :: string
  bot_allowed_mentions :: "'am option"

record 'am mentions_api =
  merge :: "'am \<Rightarrow> 'am \<Rightarrow> 'am"
  to_dict :: "'am \<Rightarrow> pyval"

text \<open>
  The fields of an \<open>Interaction\<close> that its methods read. \<open>token_start\<close> is the
  \<open>datetime.utcnow()\<close> taken by the constructor, in microseconds.
\<close>

record 'am interaction =
  bot :: "'am bot"
  token :: string
  token_start :: int

text \<open>
  \<open>content\<close> may be any object: \<open>followup\<close> observes only \<open>bool(content)\<close> and
  \<open>str(content)\<close>. An \<open>Embed\<close> is observed through its truth value (the host library
  makes an empty embed falsy) and \<open>to_dict()\<close>.
\<close>

record pyobj =
  obj_bool :: bool
  obj_str :: string

record embed =
  embed_bool :: bool
  embed_to_dict :: pyval

definition embed_truthy :: "embed option \<Rightarrow> bool" where
  "embed_truthy e = (case e of None \<Rightarrow> False | Some x \<Rightarrow> embed_bool x)"

definition embeds_truthy :: "embed list option \<Rightarrow> bool" where
  "embeds_truthy es = (case es of None \<Rightarrow> False | Some xs \<Rightarrow> xs \<noteq> [])"

definition followup ::
  "'am mentions_api \<Rightarrow> 'am interaction \<Rightarrow> pyobj \<Rightarrow> pyval \<Rightarrow> embed option \<Rightarrow> embed list option \<Rightarrow>
   'am option \<Rightarrow> pyerr + pydict" where
  "followup api self content tts one_embed embeds allowed_mentions =
     (if embed_truthy one_embed \<and> embeds_truthy embeds then Inl TypeError
      else
        let result0 = [];
            result1 = (if obj_bool content then dict_set result0 ''content'' (VStr (obj_str content))
                       else result0);
            result2 = (if py_truthy tts then dict_set result1 ''tts'' tts else result1);
            embeds1 = (if embed_truthy one_embed then map_option (\<lambda>e. [e]) one_embed else embeds);
            result3 = (if embeds_truthy embeds1
                       then dict_set result2 ''embeds''
                              (VList (map embed_to_dict (case embeds1 of None \<Rightarrow> [] | Some xs \<Rightarrow> xs)))
                       else result2);
            mentions =
              (case allowed_mentions of
                 Some a \<Rightarrow>
                   (case bot_allowed_mentions (bot self) of
                      Some b \<Rightarrow> to_dict api (merge api b a)
                    | None \<Rightarrow> to_dict api a)
               | None \<Rightarrow>
                   (case bot_allowed_mentions (bot self) of
                      None \<Rightarrow> VNone
                    | Some b \<Rightarrow> to_dict api b))
        in Inr (dict_set result3 ''allowed_mentions'' mentions))"

definition original_uri :: "'am interaction \<Rightarrow> string" where
  \<comment> \<open>\<open>BASE + "/webhooks/{}/{}/messages/@original".format(str(self.bot.user.id), self.token)\<close>\<close>
  "original_uri self =
     BASE @ ''/webhooks/'' @ str_int (user_id (bot self)) @ ''/'' @ token self @ ''/messages/@original''"

definition expired :: "'am interaction \<Rightarrow> world \<Rightarrow> bool" where
  \<comment> \<open>\<open>(datetime.utcnow() - self.token_start).total_seconds() > 900\<close>. The difference is a
      whole number of microseconds and \<open>total_seconds\<close> divides it by \<open>10**6\<close>, rounding
      to the nearest float; 900 is a float, and no value above \<open>900 * 10**6\<close> rounds down
      to it, so the comparison is the one on microseconds.\<close>
  "expired self w = (now w - token_start self > 900 * 1000000)"

definition edit_initial_response ::
  "'am mentions_api \<Rightarrow> (nat \<Rightarrow> request \<Rightarrow> response) \<Rightarrow> 'am interaction \<Rightarrow> pyobj \<Rightarrow> pyval \<Rightarrow>
   embed option \<Rightarrow> embed list option \<Rightarrow> 'am option \<Rightarrow> world \<Rightarrow> (pyerr + pyval) \<times> world" where
  "edit_initial_response api server self content tts one_embed embeds allowed_mentions w =
     (let URI = original_uri self
      in if expired self w then (Inl ExpiredToken, w)
         else if token self = [] then (Inl (InteractionsError ''No interaction token provided.''), w)
         else
           (case followup api self content tts one_embed embeds allowed_mentions of
              Inl e \<Rightarrow> (Inl e, w)
            | Inr d \<Rightarrow>
                (let (resp, w') =
                       send server
                         \<lparr>meth = ''PATCH'', url = URI, data = Some (VDict d),
                          headers = auth_headers (http_token (bot self))\<rparr> w
                 in if status resp \<noteq> 200 then (Inl (HTTPException resp (json resp)), w')
                    else (Inr (json resp), w'))))"

definition delete_initial_response ::
  "(nat \<Rightarrow> request \<Rightarrow> response) \<Rightarrow> 'am interaction \<Rightarrow> world \<Rightarrow> (pyerr + pyval) \<times> world" where
  "delete_initial_response server self w =
     (let URI = original_uri self
      in if expired self w then (Inl ExpiredToken, w)
         else if token self = [] then (Inl (InteractionsError ''No interaction token provided.''), w)
         else
           (let (resp, w') =
                  send server
                    \<lparr>meth = ''DELETE'', url = URI, data = None,
                     headers = auth_headers (http_token (bot self))\<rparr> w
            in if status resp \<noteq> 200 then (Inl (HTTPException resp (json resp)), w')
               else (Inr (json resp), w')))"

section \<open>SlashCommand: schema translation\<close>

text \<open>
  The host library's command objects, as \<open>_resolve_options\<close> reads them. In
  \<open>discord.ext.commands\<close> the class \<open>Group\<close> derives from \<open>Command\<close>, and
  \<open>clean_params\<close> is an ordered dict from parameter name to \<open>inspect.Parameter\<close>.
  A parameter's annotation is a class; \<open>param_default = None\<close> is \<open>Parameter.empty\<close>.
  \<open>commands\<close> lists a group's direct subcommands in the order its \<open>commands\<close> set
  yields them.
\<close>

datatype pyclass =
    Cls_str
  | Cls_int
  | Cls_bool
  | Cls_User
  | Cls_TextChannel
  | Cls_Role
  | Cls_UserConverter
  | Cls_TextChannelConverter
  | Cls_RoleConverter
  | Cls_other string

record parameter =
  param_name :: string
  annotation :: "pyclass option"
  param_default :: "pyval option"

datatype command =
    Command (cmd_name: string) (short_doc: string) (clean_params: "(string \<times> parameter) list")
  | Group (cmd_name: string) (short_doc: string) (commands: "command list")

text \<open>What the loop variable \<open>argument\<close> can be (\<open>args: Union[str, Param]\<close>).\<close>

datatype argument = Name string | Param parameter

definition isinstance_Command :: "command \<Rightarrow> bool" where
  \<comment> \<open>\<open>isinstance(command, commands.Command)\<close>: a \<open>Group\<close> is a \<open>Command\<close> too.\<close>
  "isinstance_Command c = (case c of Command _ _ _ \<Rightarrow> True | Group _ _ _ \<Rightarrow> True)"

definition isinstance_Group :: "command \<Rightarrow> bool" where
  "isinstance_Group c = (case c of Command _ _ _ \<Rightarrow> False | Group _ _ _ \<Rightarrow> True)"

fun walk_commands :: "command list \<Rightarrow> command list" where
  \<comment> \<open>\<open>GroupMixin.walk_commands\<close> over a group's subcommands: each one, followed by
      the walk of its own subcommands when it is a group.\<close>
  "walk_commands [] = []"
| "walk_commands (Command n d ps # cs) = Command n d ps # walk_commands cs"
| "walk_commands (Group n d sub # cs) = Group n d sub # walk_commands sub @ walk_commands cs"

definition SUB_COMMAND :: int where "SUB_COMMAND = 1"
definition SUB_COMMAND_GROUP :: int where "SUB_COMMAND_GROUP = 2"
definition STRING :: int where "STRING = 3"
definition INTEGER :: int where "INTEGER = 4"
definition BOOLEAN :: int where "BOOLEAN = 5"
definition USER :: int where "USER = 6"
definition CHANNEL :: int where "CHANNEL = 7"
definition ROLE :: int where "ROLE = 8"

definition BASE_TYPES :: "(pyclass \<times> int) list" where
  "BASE_TYPES =
     [(Cls_str, STRING), (Cls_int, INTEGER), (Cls_bool, BOOLEAN), (Cls_User, USER),
      (Cls_TextChannel, CHANNEL), (Cls_Role, ROLE), (Cls_UserConverter, USER),
      (Cls_TextChannelConverter, CHANNEL), (Cls_RoleConverter, ROLE)]"

definition key_matches :: "pyclass \<Rightarrow> argument \<Rightarrow> bool" where
  \<comment> \<open>Whether a key of \<open>BASE_TYPES\<close> (a class object) equals the object looked up: never,
      for a \<open>str\<close> instance or a \<open>Parameter\<close> instance.\<close>
  "key_matches k a = (case a of Name _ \<Rightarrow> False | Param _ \<Rightarrow> False)"

definition BASE_TYPES_get :: "argument \<Rightarrow> int \<Rightarrow> int" where
  \<comment> \<open>\<open>SlashCommand.BASE_TYPES.get(argument, default)\<close>\<close>
  "BASE_TYPES_get a dflt =
     (case filter (\<lambda>(k, v). key_matches k a) BASE_TYPES of
        [] \<Rightarrow> dflt
      | (k, v) # _ \<Rightarrow> v)"

definition option_entry :: "(string \<Rightarrow> nat \<Rightarrow> string) \<Rightarrow> argument \<Rightarrow> pyval option" where
  \<comment> \<open>One turn of the loop over \<open>args\<close>: \<open>None\<close> is \<open>continue\<close>. \<open>shorten\<close> is
      \<open>textwrap.shorten\<close>, a parameter.\<close>
  "option_entry shorten a =
     (case a of
        Name _ \<Rightarrow> None
      | Param p \<Rightarrow>
          (let type' = BASE_TYPES_get a STRING;
               required = (param_default p = None)
           in Some (VDict [(''name'', VStr (shorten (param_name p) 32)),
                           (''description'', VStr ''[No Description]''),
                           (''type'', VInt type'),
                           (''required'', VBool required)])))"

fun option_entries :: "(string \<Rightarrow> nat \<Rightarrow> string) \<Rightarrow> argument list \<Rightarrow> pyval list" where
  "option_entries shorten [] = []"
| "option_entries shorten (a # rest) =
     (case option_entry shorten a of
        None \<Rightarrow> option_entries shorten rest
      | Some e \<Rightarrow> e # option_entries shorten rest)"

definition iter_dict :: "(string \<times> parameter) list \<Rightarrow> argument list" where
  \<comment> \<open>\<open>for argument in args\<close> with \<open>args\<close> a dict: the loop visits its keys.\<close>
  "iter_dict ps = map (Name \<circ> fst) ps"

function resolve_options :: "(string \<Rightarrow> nat \<Rightarrow> string) \<Rightarrow> command \<Rightarrow> pydict" where
  "resolve_options shorten (Group n d cs) =
     (let command = Group n d cs;
          content = [(''name'', VStr n),
                     (''description'', VStr (shorten d 100)),
                     (''type'', VInt (if isinstance_Command command then 1 else 2)),
                     (''options'', VList [])];
          options' = map (\<lambda>cmd. VDict (resolve_options shorten cmd)) (walk_commands cs)
      in dict_set content ''options'' (VList ([] @ options')))"
| "resolve_options shorten (Command n d ps) =
     (let command = Command n d ps;
          content = [(''name'', VStr n),
                     (''description'', VStr (shorten d 100)),
                     (''type'', VInt (if isinstance_Command command then 1 else 2)),
                     (''options'', VList [])];
          options' = option_entries shorten (iter_dict ps)
      in dict_set content ''options'' (VList ([] @ options')))"
  by pat_completeness auto
termination
proof (relation "measure (\<lambda>(shorten, c). size c)")
  show "wf (measure (\<lambda>(shorten :: string \<Rightarrow> nat \<Rightarrow> string, c :: command). size c))"
    by simp
next
  fix shorten :: "string \<Rightarrow> nat \<Rightarrow> string" and n d :: string and cs :: "command list"
    and x :: command
  assume x: "x \<in> set (walk_commands cs)"
  have "\<forall>y \<in> set (walk_commands cs). size y \<le> size_list size cs"
    by (induction cs rule: walk_commands.induct) fastforce+
  with x have "size x \<le> size_list size cs" by blast
  then show "((shorten, x), (shorten, Group n d cs)) \<in> measure (\<lambda>(shorten, c). size c)"
    by simp
qed

section \<open>SlashCommand: registration\<close>

definition DEFAULT_URI :: string where
  "DEFAULT_URI = ''/applications/{client_id}/commands''"

definition GUILD_URI :: string where
  "GUILD_URI = ''/applications/{client_id}/guilds/{guild_id}/commands''"

text \<open>
  \<open>create_global_commands\<close> over the caller's dict objects, given by their addresses
  in the heap. The parameter \<open>fmt t client_id g\<close> is the built-in call
  \<open>t.format(client_id=str(client_id), guild_id=str(g))\<close>; it may raise. A popped
  \<open>uri\<close> that is not a \<open>str\<close> has no \<open>format\<close> (\<open>AttributeError\<close>), raised before
  \<open>guild_id\<close> is popped. The formatted \<open>uri\<close> is never read again.
\<close>

fun create_global_commands ::
  "(string \<Rightarrow> int \<Rightarrow> pyval \<Rightarrow> pyerr + string) \<Rightarrow> (nat \<Rightarrow> request \<Rightarrow> response) \<Rightarrow> int \<Rightarrow> string \<Rightarrow>
   nat list \<Rightarrow> world \<Rightarrow> (pyerr + unit) \<times> world" where
  "create_global_commands fmt server client_id tok [] w = (Inr (), w)"
| "create_global_commands fmt server client_id tok (command # rest) w =
     (let (template, payload1) = dict_pop (heap w command) ''uri'' (VStr DEFAULT_URI);
          w1 = w\<lparr>heap := (heap w)(command := payload1)\<rparr>
      in case template of
           VStr t \<Rightarrow>
             (let (guild, payload2) = dict_pop payload1 ''guild_id'' (VStr []);
                  w2 = w1\<lparr>heap := (heap w1)(command := payload2)\<rparr>
              in case fmt t client_id guild of
                   Inl e \<Rightarrow> (Inl e, w2)
                 | Inr uri \<Rightarrow>
                     (let (resp, w3) =
                            send server
                              \<lparr>meth = ''POST'',
                               url = BASE @ ''/applications/'' @ str_int client_id @ ''/commands'',
                               data = Some (VDict payload2),
                               headers = auth_headers tok\<rparr> w2
                      in if status resp \<noteq> 200 then (Inl (HTTPException resp (json resp)), w3)
                         else create_global_commands fmt server client_id tok rest w3))
         | _ \<Rightarrow> (Inl AttributeError, w1))"

declare create_global_commands.simps(2) [simp del]

text \<open>
  An instance of \<open>fmt\<close> for concrete runs: \<open>str.format\<close> on templates made of plain
  text and the fields \<open>{client_id}\<close> and \<open>{guild_id}\<close>, with a scalar \<open>guild_id\<close>.
  \<open>LibraryError\<close> marks inputs beyond that fragment (brace escapes, conversions,
  format specs, floats and containers), which this instance does not describe.
\<close>

definition is_letter :: "char \<Rightarrow> bool" where
  "is_letter c =
     (let n = (of_char c :: nat) in (97 \<le> n \<and> n \<le> 122) \<or> (65 \<le> n \<and> n \<le> 90) \<or> n = 95)"

fun format_fields :: "string option \<Rightarrow> string \<Rightarrow> string \<Rightarrow> string \<Rightarrow> pyerr + string" where
  "format_fields None [] c g = Inr []"
| "format_fields (Some f) [] c g = Inl ValueError"
| "format_fields None (x # xs) c g =
     (if x = CHR ''{'' then format_fields (Some []) xs c g
      else if x = CHR ''}'' then Inl LibraryError
      else case format_fields None xs c g of Inl e \<Rightarrow> Inl e | Inr r \<Rightarrow> Inr (x # r))"
| "format_fields (Some f) (x # xs) c g =
     (if x = CHR ''}'' then
        (if f = ''client_id'' then
           (case format_fields None xs c g of Inl e \<Rightarrow> Inl e | Inr r \<Rightarrow> Inr (c @ r))
         else if f = ''guild_id'' then
           (case format_fields None xs c g of Inl e \<Rightarrow> Inl e | Inr r \<Rightarrow> Inr (g @ r))
         else if f \<noteq> [] \<and> list_all is_letter f then Inl (KeyError f)
         else Inl LibraryError)
      else format_fields (Some (f @ [x])) xs c g)"

definition str_scalar :: "pyval \<Rightarrow> pyerr + string" where
  "str_scalar v =
     (case v of
        VNone \<Rightarrow> Inr ''None''
      | VBool b \<Rightarrow> Inr (if b then ''True'' else ''False'')
      | VInt i \<Rightarrow> Inr (str_int i)
      | VStr s \<Rightarrow> Inr s
      | _ \<Rightarrow> Inl LibraryError)"

definition format_uri :: "string \<Rightarrow> int \<Rightarrow> pyval \<Rightarrow> pyerr + string" where
  "format_uri t client_id g =
     (case str_scalar g of
        Inl e \<Rightarrow> Inl e
      | Inr gs \<Rightarrow> format_fields None t (str_int client_id) gs)"

section \<open>SlashCommand: validation of a manual schema\<close>

definition validate_option :: "pyval \<Rightarrow> pyerr + unit" where
  \<comment> \<open>The body of the loop over \<open>s["options"]\<close>.\<close>
  "validate_option opt =
     (case getitem opt ''name'' of Inl e \<Rightarrow> Inl e | Inr name \<Rightarrow>
      case getitem opt ''description'' of Inl e \<Rightarrow> Inl e | Inr description \<Rightarrow>
      case py_len name of Inl e \<Rightarrow> Inl e | Inr n \<Rightarrow>
      if n > 32 \<or> n < 1 then Inl (IndexError Option_name_field) else
      case py_len description of Inl e \<Rightarrow> Inl e | Inr m \<Rightarrow>
      if m > 100 \<or> m < 1 then Inl (IndexError Option_description_field) else
      case get_default opt ''choices'' (VList []) of Inl e \<Rightarrow> Inl e | Inr choices \<Rightarrow>
      case py_len choices of Inl e \<Rightarrow> Inl e | Inr k \<Rightarrow>
      if k > 10 then Inl (IndexError Option_choices_field) else Inr ())"

fun validate_options :: "pyval list \<Rightarrow> pyerr + unit" where
  "validate_options [] = Inr ()"
| "validate_options (opt # rest) =
     (case validate_option opt of Inl e \<Rightarrow> Inl e | Inr _ \<Rightarrow> validate_options rest)"

definition validate_schema :: "pydict \<Rightarrow> pyerr + bool" where
  \<comment> \<open>\<open>SlashCommand._validate_schema(s)\<close>; the logged warning is not modelled.\<close>
  "validate_schema s =
     (case getitem (VDict s) ''name'' of Inl e \<Rightarrow> Inl e | Inr name \<Rightarrow>
      case getitem (VDict s) ''description'' of Inl e \<Rightarrow> Inl e | Inr description \<Rightarrow>
      case py_len name of Inl e \<Rightarrow> Inl e | Inr n \<Rightarrow>
      if n > 32 \<or> n < 3 then Inl (IndexError Name_field) else
      case py_len description of Inl e \<Rightarrow> Inl e | Inr m \<Rightarrow>
      if m > 100 \<or> m < 1 then Inl (IndexError Description_field) else
      case getitem (VDict s) ''options'' of Inl e \<Rightarrow> Inl e | Inr options \<Rightarrow>
      case py_iter options of Inl e \<Rightarrow> Inl e | Inr opts \<Rightarrow>
      case validate_options opts of Inl e \<Rightarrow> Inl e | Inr _ \<Rightarrow> Inr True)"

section \<open>SlashCommandContainer\<close>

record container =
  excluded :: "command list"
  publish :: "pydict list"

definition command_eq_schema :: "command \<Rightarrow> pydict \<Rightarrow> bool" where
  \<comment> \<open>\<open>obj == schema\<close> inside \<open>obj in self._publish\<close>: a command object is never equal
      to a dict.\<close>
  "command_eq_schema obj d = False"

definition add_command ::
  "(string \<Rightarrow> nat \<Rightarrow> string) \<Rightarrow> container \<Rightarrow> command \<Rightarrow> int option \<Rightarrow> bool \<Rightarrow> pydict \<Rightarrow>
   (pyerr + unit) \<times> container" where
  \<comment> \<open>\<open>guild\<close> is \<open>None\<close> or a guild, given by its \<open>id\<close>; a guild object is truthy.\<close>
  "add_command shorten self obj guild auto_generate_schema kwargs =
     (if list_ex (command_eq_schema obj) (publish self) then (Inl AlreadyRegistered, self)
      else
        case (if auto_generate_schema then Inr (resolve_options shorten obj)
              else case validate_schema kwargs of Inl e \<Rightarrow> Inl e | Inr _ \<Rightarrow> Inr kwargs) of
          Inl e \<Rightarrow> (Inl e, self)
        | Inr schema \<Rightarrow>
            (let schema1 =
                   (case guild of
                      None \<Rightarrow> schema
                    | Some gid \<Rightarrow>
                        dict_set (dict_set schema ''guild_id'' (VInt gid)) ''uri'' (VStr GUILD_URI))
             in (Inr (), self\<lparr>publish := publish self @ [schema1]\<rparr>)))"

definition heap_of :: "pydict list \<Rightarrow> nat \<Rightarrow> pydict" where
  \<comment> \<open>The dicts of a list as objects at the addresses \<open>0, 1, ...\<close>.\<close>
  "heap_of ds = (\<lambda>i. if i < length ds then ds ! i else [])"

section \<open>The webhook route\<close>

text \<open>
  The module \<open>fastapi_router\<close> as Python compiles it. A function whose body contains
  \<open>await\<close> must be declared \<open>async def\<close>; otherwise compiling the module raises
  \<open>SyntaxError\<close>, before any statement of the module runs. Each \<open>def\<close> of the
  module is listed with whether it is declared \<open>async\<close> and whether its body awaits:
  \<open>Router.route\<close> is written \<open>def route(self, request)\<close> and its first statement is
  \<open>body = await request.body()\<close>.
\<close>

record def_stmt =
  def_name :: string
  def_async :: bool
  def_awaits :: bool

definition fastapi_router_defs :: "def_stmt list" where
  "fastapi_router_defs =
     [\<lparr>def_name = ''__init__'', def_async = False, def_awaits = False\<rparr>,
      \<lparr>def_name = ''verify_key'', def_async = False, def_awaits = False\<rparr>,
      \<lparr>def_name = ''route'', def_async = False, def_awaits = True\<rparr>,
      \<lparr>def_name = ''mount'', def_async = False, def_awaits = False\<rparr>]"

definition compiles :: "def_stmt \<Rightarrow> bool" where
  "compiles d = (if def_awaits d then def_async d else True)"

definition import_fastapi_router :: "pyerr + unit" where
  \<comment> \<open>\<open>import fastapi_router\<close>: the module is compiled first.\<close>
  "import_fastapi_router =
     (if list_all compiles fastapi_router_defs then Inr () else Inl SyntaxError)"

text \<open>
  \<open>route_body\<close> is the sequence of statements written inside \<open>Router.route\<close>, as they
  would run in a coroutine. \<open>loads\<close> is \<open>json.loads\<close>, a parameter. The module never
  binds the global \<open>BOT\<close>; \<open>BOT_bound\<close> says whether the application has.
  \<open>dispatched\<close> lists the events handed to \<open>BOT.dispatch\<close>, each with the body
  \<open>Interaction.from_request\<close> was called on. A \<open>reply\<close> is
  \<open>JSONResponse(content, status_code)\<close>, whose default status is 200.
\<close>

record reply =
  reply_content :: pyval
  status_code :: nat

record dispatcher =
  BOT_bound :: bool
  dispatched :: "(string \<times> pyval) list"

record http_request =
  req_headers :: "string \<Rightarrow> string option"
  req_body :: "byte list"

definition route_body ::
  "'vk nacl \<Rightarrow> (byte list \<Rightarrow> pyerr + pyval) \<Rightarrow> string \<Rightarrow> http_request \<Rightarrow> dispatcher \<Rightarrow>
   (pyerr + reply) \<times> dispatcher" where
  "route_body lib loads public_key req st =
     (let body = req_body req
      in case verify_key lib (req_headers req) body public_key of
           Inl e \<Rightarrow> (Inl e, st)
         | Inr ok \<Rightarrow>
             if \<not> ok then (Inr \<lparr>reply_content = VDict [], status_code = 401\<rparr>, st)
             else
               (case loads body of
                  Inl e \<Rightarrow> (Inl e, st)
                | Inr js \<Rightarrow>
                    (case getitem js ''type'' of
                       Inl e \<Rightarrow> (Inl e, st)
                     | Inr t \<Rightarrow>
                         if py_eq_int t 1
                         then (Inr \<lparr>reply_content = VDict [(''type'', VInt 1)], status_code = 200\<rparr>, st)
                         else if \<not> BOT_bound st then (Inl NameError, st)
                         else (Inr \<lparr>reply_content = VDict [], status_code = 202\<rparr>,
                               st\<lparr>dispatched := dispatched st @ [(''ext_interaction'', js)]\<rparr>))))"

definition route ::
  "'vk nacl \<Rightarrow> (byte list \<Rightarrow> pyerr + pyval) \<Rightarrow> string \<Rightarrow> http_request \<Rightarrow> dispatcher \<Rightarrow>
   (pyerr + reply) \<times> dispatcher" where
  \<comment> \<open>\<open>Router.route\<close> of the module as written: an application reaches it only by
      importing the module.\<close>
  "route lib loads public_key req st =
     (case import_fastapi_router of
        Inl e \<Rightarrow> (Inl e, st)
      | Inr _ \<Rightarrow> route_body lib loads public_key req st)"

section \<open>Notions used to state the properties\<close>

text \<open>
  For \<open>create_global_commands\<close>: what a schema looks like once both keys are popped,
  the template and guild value the two \<open>pop\<close> calls return, the request the loop
  posts for a schema, and whether formatting its path template raises nothing.
  \<open>exchanges server n rs\<close> pairs each request of \<open>rs\<close> with the server's answer when
  they are sent one after another, \<open>n\<close> requests having been sent before; an exchange
  is \<open>accepted\<close> when the answer has status 200.
\<close>

definition strip_keys :: "pydict \<Rightarrow> pydict" where
  "strip_keys d = AList.delete ''guild_id'' (AList.delete ''uri'' d)"

definition template_of :: "pydict \<Rightarrow> pyval" where
  "template_of d = fst (dict_pop d ''uri'' (VStr DEFAULT_URI))"

definition guild_of :: "pydict \<Rightarrow> pyval" where
  "guild_of d = fst (dict_pop (AList.delete ''uri'' d) ''guild_id'' (VStr []))"

definition global_url :: "int \<Rightarrow> string" where
  "global_url client_id = BASE @ ''/applications/'' @ str_int client_id @ ''/commands''"

definition post_request :: "int \<Rightarrow> string \<Rightarrow> pydict \<Rightarrow> request" where
  "post_request client_id tok d =
     \<lparr>meth = ''POST'', url = global_url client_id, data = Some (VDict (strip_keys d)),
      headers = auth_headers tok\<rparr>"

definition formats :: "(string \<Rightarrow> int \<Rightarrow> pyval \<Rightarrow> pyerr + string) \<Rightarrow> int \<Rightarrow> pydict \<Rightarrow> bool" where
  "formats fmt client_id d =
     (case template_of d of
        VStr t \<Rightarrow> (case fmt t client_id (guild_of d) of Inr _ \<Rightarrow> True | Inl _ \<Rightarrow> False)
      | _ \<Rightarrow> False)"

fun exchanges :: "(nat \<Rightarrow> request \<Rightarrow> response) \<Rightarrow> nat \<Rightarrow> request list \<Rightarrow> (request \<times> response) list" where
  "exchanges server n [] = []"
| "exchanges server n (r # rs) = (r, server n r) # exchanges server (Suc n) rs"

definition accepted :: "request \<times> response \<Rightarrow> bool" where
  "accepted x = (status (snd x) = 200)"











section \<open>Concrete inputs\<close>

text \<open>Values used where a property is run on an explicit input.\<close>

definition plain_mentions :: "unit mentions_api" where
  "plain_mentions = \<lparr>merge = (\<lambda>a b. ()), to_dict = (\<lambda>a. VDict [(''parse'', VList [])])\<rparr>"

definition some_bot :: "unit bot" where
  "some_bot = \<lparr>user_id = 7, http_token = ''secret'', bot_allowed_mentions = None\<rparr>"

definition old_interaction :: "unit interaction" where
  \<comment> \<open>Built at time 0.\<close>
  "old_interaction = \<lparr>bot = some_bot, token = ''abc'', token_start = 0\<rparr>"

definition world_at :: "int \<Rightarrow> world" where
  \<comment> \<open>A world whose clock reads the given microsecond, with no request issued yet.\<close>
  "world_at t = \<lparr>now = t, http_log = [], heap = (\<lambda>a. [])\<rparr>"

definition ok_server :: "nat \<Rightarrow> request \<Rightarrow> response" where
  "ok_server n r = \<lparr>status = 200, json = VDict []\<rparr>"

definition py_None :: pyobj where
  "py_None = \<lparr>obj_bool = False, obj_str = ''None''\<rparr>"

definition py_str :: "string \<Rightarrow> pyobj" where
  "py_str s = \<lparr>obj_bool = (s \<noteq> []), obj_str = s\<rparr>"

definition keep_short :: "string \<Rightarrow> nat \<Rightarrow> string" where
  \<comment> \<open>\<open>textwrap.shorten\<close> on text that is single-spaced and within the width.\<close>
  "keep_short s n = s"

definition ping_command :: command where
  "ping_command = Command ''ping'' ''Replies with pong'' []"

definition guild_schema :: pydict where
  "guild_schema =
     [(''name'', VStr ''ping''), (''description'', VStr ''Replies with pong''), (''type'', VInt 1),
      (''options'', VList []), (''guild_id'', VInt 42), (''uri'', VStr GUILD_URI)]"

definition plain_schema :: "string \<Rightarrow> pydict" where
  "plain_schema n =
     [(''name'', VStr n), (''description'', VStr ''A command''), (''type'', VInt 1),
      (''options'', VList [])]"

definition world_with :: "pydict list \<Rightarrow> world" where
  "world_with ds = \<lparr>now = 0, http_log = [], heap = heap_of ds\<rparr>"

definition second_fails :: "nat \<Rightarrow> request \<Rightarrow> response" where
  "second_fails n r = \<lparr>status = (if n = 1 then 500 else 200), json = VDict []\<rparr>"

definition failing_server :: "nat \<Rightarrow> request \<Rightarrow> response" where
  "failing_server n r = \<lparr>status = 500, json = VDict []\<rparr>"

definition three_schemas :: "pydict list" where
  "three_schemas = [plain_schema ''one'', guild_schema, plain_schema ''three'']"





section \<open>Properties of signature verification\<close>

lemma fromhex_zz: "fromhex ''zz'' = Inl ValueError"
  by (simp add: is_space_def hex_digit_def)

text \<open>
  \<open>Router.verify_key\<close> answers with a boolean whenever the timestamp header is
  present, and answers \<open>True\<close> exactly when both hex strings decode, the key is
  accepted and the signature of \<open>timestamp || body\<close> verifies.
\<close>

lemma verify_key_never_raises:
  "hdrs ''X-Signature-Timestamp'' = Some ts \<Longrightarrow>
     verify_key lib hdrs body key =
       Inr (checked lib key (encode ts @ body) (hdrs ''X-Signature-Ed25519'') = Inr ())"
  by (auto simp: verify_key_def Let_def split: sum.splits)

lemma checked_ok:
  "checked lib key message signature = Inr () \<Longrightarrow>
     \<exists>kb vk s sb. fromhex key = Inr kb \<and> VerifyKey lib kb = Inr vk \<and> signature = Some s \<and>
        fromhex s = Inr sb \<and> verify lib vk message sb = Inr ()"
  by (auto simp: checked_def fromhex_arg_def split: sum.splits option.splits)

text \<open>
  C1. The claim asks that verification never raises on a cryptographic failure such as
  malformed hex. \<open>Interaction.verify_request\<close> does raise: with the signature header
  \<open>zz\<close> it raises whatever the public key is, and with the public key \<open>zz\<close> it raises
  \<open>ValueError\<close>, where the claim asks for the answer \<open>False\<close>.
\<close>

theorem verify_request_raises_on_malformed_hex:
  "(\<exists>e. verify_request lib ''zz'' X_Signature_Timestamp raw_body public_key = Inl e) \<and>
   verify_request lib X_Signature_Ed25519 X_Signature_Timestamp raw_body ''zz'' = Inl ValueError"
  by (simp add: verify_request_def is_space_def hex_digit_def split: sum.split)

section \<open>Properties of the follow-up calls\<close>

text \<open>
  C2. When the token was issued more than 900 seconds ago, \<open>edit_initial_response\<close>
  and \<open>delete_initial_response\<close> both fail with \<open>ExpiredToken\<close> and leave the world,
  hence the log of HTTP requests, as it was: no request is issued.
\<close>

theorem expired_token_no_network:
  "900 * 1000000 < now w - token_start self \<Longrightarrow>
     edit_initial_response api server self content tts one_embed embeds allowed_mentions w
       = (Inl ExpiredToken, w) \<and>
     delete_initial_response server self w = (Inl ExpiredToken, w)"
  by (simp add: edit_initial_response_def delete_initial_response_def expired_def)

theorem expired_token_no_network_witness:
  "900 * 1000000 < now (world_at 901000000) - token_start old_interaction \<and>
   edit_initial_response plain_mentions ok_server old_interaction (py_str ''hi'') (VBool False)
       None None None (world_at 901000000)
     = (Inl ExpiredToken, world_at 901000000) \<and>
   delete_initial_response ok_server old_interaction (world_at 901000000)
     = (Inl ExpiredToken, world_at 901000000) \<and>
   http_log (world_at 901000000) = []"
proof -
  have late: "900 * 1000000 < now (world_at 901000000) - token_start old_interaction"
    by (simp add: world_at_def old_interaction_def)
  show ?thesis
    using late
      expired_token_no_network [OF late, of plain_mentions ok_server "py_str ''hi''" "VBool False"
        None None None]
    by (simp add: world_at_def)
qed

lemma dict_get_set: "dict_get (dict_set d k v) k' = (if k' = k then Some v else dict_get d k')"
  by (simp add: dict_get_def dict_set_def update_conv')

lemma dict_get_Nil: "dict_get [] k = None"
  by (simp add: dict_get_def)

lemma followup_result:
  assumes "followup api self content tts one_embed embeds allowed_mentions = Inr d"
  shows "d = dict_set
           (let r1 = (if obj_bool content then dict_set [] ''content'' (VStr (obj_str content)) else []);
                r2 = (if py_truthy tts then dict_set r1 ''tts'' tts else r1);
                es = (if embed_truthy one_embed then map_option (\<lambda>e. [e]) one_embed else embeds)
            in if embeds_truthy es
               then dict_set r2 ''embeds'' (VList (map embed_to_dict (case es of None \<Rightarrow> [] | Some xs \<Rightarrow> xs)))
               else r2)
           ''allowed_mentions''
           (case allowed_mentions of
              Some a \<Rightarrow> (case bot_allowed_mentions (bot self) of
                          Some b \<Rightarrow> to_dict api (merge api b a) | None \<Rightarrow> to_dict api a)
            | None \<Rightarrow> (case bot_allowed_mentions (bot self) of
                         None \<Rightarrow> VNone | Some b \<Rightarrow> to_dict api b))"
proof (cases "embed_truthy one_embed \<and> embeds_truthy embeds")
  case True
  with assms show ?thesis by (simp add: followup_def)
next
  case False
  with assms show ?thesis by (simp add: followup_def Let_def)
qed

text \<open>
  What \<open>followup\<close> does with \<open>content\<close>, \<open>tts\<close> and the embeds: each key is in the
  returned mapping exactly when the corresponding argument is truthy, with
  \<open>str(content)\<close>, \<open>tts\<close> itself, and the list of embed mappings.
\<close>

lemma followup_optional_keys:
  assumes "followup api self content tts one_embed embeds allowed_mentions = Inr d"
  shows "dict_get d ''content'' = (if obj_bool content then Some (VStr (obj_str content)) else None) \<and>
         dict_get d ''tts'' = (if py_truthy tts then Some tts else None) \<and>
         dict_get d ''embeds'' =
           (if embed_truthy one_embed then map_option (\<lambda>e. VList [embed_to_dict e]) one_embed
            else if embeds_truthy embeds then map_option (\<lambda>es. VList (map embed_to_dict es)) embeds
            else None)"
proof -
  note d = followup_result [OF assms]
  have c1: "dict_get d ''content'' = (if obj_bool content then Some (VStr (obj_str content)) else None)"
    by (subst d) (simp add: dict_get_set dict_get_Nil Let_def)
  have c2: "dict_get d ''tts'' = (if py_truthy tts then Some tts else None)"
    by (subst d) (simp add: dict_get_set dict_get_Nil Let_def)
  have c3: "dict_get d ''embeds'' =
           (if embed_truthy one_embed then map_option (\<lambda>e. VList [embed_to_dict e]) one_embed
            else if embeds_truthy embeds then map_option (\<lambda>es. VList (map embed_to_dict es)) embeds
            else None)"
    by (subst d) (auto simp: dict_get_set dict_get_Nil Let_def embed_truthy_def embeds_truthy_def
        split: option.splits)
  from c1 c2 c3 show ?thesis by blast
qed

text \<open>
  C7. The claim asks that \<open>allowed_mentions\<close> be left out of the mapping when neither
  the argument nor the bot-wide default is given, and the docstring of \<open>followup\<close>
  says the argument defaults to \<open>discord.AllowedMentions.none()\<close>. The code does
  neither: with every argument left at its default and no bot-wide default,
  \<open>followup\<close> returns the mapping whose only key is \<open>allowed_mentions\<close>, with value
  \<open>None\<close>.
\<close>

theorem followup_emits_null_mentions:
  "followup plain_mentions old_interaction py_None (VBool False) None None None
     = Inr [(''allowed_mentions'', VNone)] \<and>
   dict_get [(''allowed_mentions'', VNone)] ''allowed_mentions'' = Some VNone"
  by (simp add: followup_def dict_get_def dict_set_def py_None_def py_truthy_def
      embed_truthy_def embeds_truthy_def old_interaction_def some_bot_def)

section \<open>Properties of the webhook route\<close>

text \<open>
  C9. The claim asks that a verified request whose decoded body has \<open>type\<close> equal to 1
  be answered with status 200 and body \<open>{"type": 1}\<close>. The module that holds the route
  does not compile, because \<open>route\<close> awaits inside a plain \<open>def\<close>: importing it raises
  \<open>SyntaxError\<close>, and no request, a PING included, is answered.
\<close>

theorem route_never_answers:
  "import_fastapi_router = Inl SyntaxError \<and>
   route lib loads public_key req st = (Inl SyntaxError, st)"
  by (simp add: route_def import_fastapi_router_def fastapi_router_defs_def compiles_def)

text \<open>
  The statements written inside \<open>route\<close> do what the claim says once they run as a
  coroutine: after a successful verification, a decoded body of \<open>type\<close> 1 gets status
  200 and \<open>{"type": 1}\<close>, and the dispatcher is left as it was.
\<close>

lemma route_body_ping:
  assumes "verify_key lib (req_headers req) (req_body req) public_key = Inr True"
    and "loads (req_body req) = Inr js"
    and "getitem js ''type'' = Inr t"
    and "py_eq_int t 1"
  shows "route_body lib loads public_key req st =
           (Inr \<lparr>reply_content = VDict [(''type'', VInt 1)], status_code = 200\<rparr>, st)"
  using assms by (simp add: route_body_def)

section \<open>Properties of schema translation\<close>

lemma option_entries_iter_dict: "option_entries shorten (iter_dict ps) = []"
  by (induction ps) (simp_all add: iter_dict_def option_entry_def)

text \<open>
  Had the loop been handed a \<open>Parameter\<close>, the entry's type would still be \<open>STRING\<close>
  whatever the annotation: the table is probed with the parameter object itself.
\<close>

lemma option_entry_type_is_string:
  "option_entry shorten (Param p) =
     Some (VDict [(''name'', VStr (shorten (param_name p) 32)),
                  (''description'', VStr ''[No Description]''),
                  (''type'', VInt 3), (''required'', VBool (param_default p = None))])"
  by (simp add: option_entry_def BASE_TYPES_get_def key_matches_def STRING_def)

text \<open>
  C3. The claim asks that a group of two leaf commands translate to a schema with two
  option entries of type command and with the group's own type marking a group.
  The translation of such a group has the two entries, each of type 1, but the type of
  the group itself is 1 as well, the value that marks a command, and not 2.
\<close>

theorem group_schema_type:
  "resolve_options shorten (Group n d [Command n1 d1 ps1, Command n2 d2 ps2]) =
     [(''name'', VStr n), (''description'', VStr (shorten d 100)), (''type'', VInt 1),
      (''options'', VList [VDict (resolve_options shorten (Command n1 d1 ps1)),
                          VDict (resolve_options shorten (Command n2 d2 ps2))])] \<and>
   dict_get (resolve_options shorten (Command n1 d1 ps1)) ''type'' = Some (VInt 1) \<and>
   dict_get (resolve_options shorten (Command n2 d2 ps2)) ''type'' = Some (VInt 1)"
  by (simp add: option_entries_iter_dict dict_set_def dict_get_def isinstance_Command_def)

text \<open>
  C4. The claim asks for one option entry per declared parameter of a leaf command.
  The translation of a leaf command has an empty option list whatever its parameters
  are: the loop runs over the keys of \<open>clean_params\<close>, which are strings, and skips
  every string.
\<close>

theorem leaf_schema_has_no_options:
  "resolve_options shorten (Command n d ps) =
     [(''name'', VStr n), (''description'', VStr (shorten d 100)), (''type'', VInt 1),
      (''options'', VList [])]"
  by (simp add: option_entries_iter_dict dict_set_def isinstance_Command_def)

section \<open>Properties of command registration\<close>

lemma snd_dict_pop: "snd (dict_pop d k v) = AList.delete k d"
  by (simp add: dict_pop_def delete_notin_dom map_of_eq_None_iff[symmetric] split: option.split)

lemma strip_keys_idem: "strip_keys (strip_keys d) = strip_keys d"
  by (simp add: strip_keys_def delete_idem delete_twist)

lemma template_of_strip: "template_of (strip_keys d) = VStr DEFAULT_URI"
  by (simp add: template_of_def strip_keys_def dict_pop_def delete_conv' delete_twist [of "''guild_id''"]
      split: option.split)

lemma guild_of_strip: "guild_of (strip_keys d) = VStr []"
  by (simp add: guild_of_def strip_keys_def dict_pop_def delete_conv' split: option.split)

lemma formats_strip: "formats fmt client_id (strip_keys d) = formats fmt client_id []"
  by (simp add: formats_def template_of_strip guild_of_strip)
     (simp add: template_of_def guild_of_def dict_pop_def)

lemma post_request_strip: "post_request client_id tok (strip_keys d) = post_request client_id tok d"
  by (simp add: post_request_def strip_keys_idem)

lemma create_global_commands_step:
  assumes "formats fmt client_id (heap w c)"
  shows "create_global_commands fmt server client_id tok (c # rest) w =
     (let req = post_request client_id tok (heap w c);
          resp = server (length (http_log w)) req;
          w3 = w\<lparr>heap := (heap w)(c := strip_keys (heap w c)), http_log := http_log w @ [(req, resp)]\<rparr>
      in if status resp \<noteq> 200 then (Inl (HTTPException resp (json resp)), w3)
         else create_global_commands fmt server client_id tok rest w3)"
proof -
  obtain t where t: "template_of (heap w c) = VStr t"
    using assms by (auto simp: formats_def split: pyval.splits)
  obtain u where u: "fmt t client_id (guild_of (heap w c)) = Inr u"
    using assms t by (auto simp: formats_def split: sum.splits)
  have p1: "dict_pop (heap w c) ''uri'' (VStr DEFAULT_URI) = (VStr t, AList.delete ''uri'' (heap w c))"
    using t snd_dict_pop [of "heap w c" "''uri''" "VStr DEFAULT_URI"]
    by (simp add: template_of_def prod_eq_iff)
  have p2: "dict_pop (AList.delete ''uri'' (heap w c)) ''guild_id'' (VStr []) =
              (guild_of (heap w c), strip_keys (heap w c))"
    using snd_dict_pop [of "AList.delete ''uri'' (heap w c)" "''guild_id''" "VStr []"]
    by (simp add: guild_of_def strip_keys_def prod_eq_iff)
  show ?thesis
    by (simp add: create_global_commands.simps(2) p1 p2 u send_def post_request_def
        global_url_def Let_def)
qed


lemma create_global_commands_run:
  assumes "\<forall>c\<in>set cs. formats fmt client_id (heap w c)" and "formats fmt client_id []"
  shows "http_log (snd (create_global_commands fmt server client_id tok cs w)) =
           http_log w @ take (Suc (length (takeWhile accepted
             (exchanges server (length (http_log w)) (map (\<lambda>c. post_request client_id tok (heap w c)) cs)))))
             (exchanges server (length (http_log w)) (map (\<lambda>c. post_request client_id tok (heap w c)) cs)) \<and>
         fst (create_global_commands fmt server client_id tok cs w) =
           (case dropWhile accepted
              (exchanges server (length (http_log w)) (map (\<lambda>c. post_request client_id tok (heap w c)) cs)) of
              [] \<Rightarrow> Inr ()
            | x # _ \<Rightarrow> Inl (HTTPException (snd x) (json (snd x)))) \<and>
         heap (snd (create_global_commands fmt server client_id tok cs w)) =
           (\<lambda>a. if a \<in> set (take (Suc (length (takeWhile accepted
             (exchanges server (length (http_log w)) (map (\<lambda>c. post_request client_id tok (heap w c)) cs))))) cs)
                then strip_keys (heap w a) else heap w a) \<and>
         now (snd (create_global_commands fmt server client_id tok cs w)) = now w"
  using assms
proof (induction cs arbitrary: w)
  case Nil
  then show ?case by simp
next
  case (Cons c rest)
  define req where "req = post_request client_id tok (heap w c)"
  define resp where "resp = server (length (http_log w)) req"
  define w3 where "w3 = w\<lparr>heap := (heap w)(c := strip_keys (heap w c)), http_log := http_log w @ [(req, resp)]\<rparr>"
  have fc: "formats fmt client_id (heap w c)"
    using Cons.prems(1) by simp
  have step: "create_global_commands fmt server client_id tok (c # rest) w =
                (if status resp \<noteq> 200 then (Inl (HTTPException resp (json resp)), w3)
                 else create_global_commands fmt server client_id tok rest w3)"
    using create_global_commands_step [OF fc, of server tok rest]
    by (simp add: req_def resp_def w3_def Let_def)
  have ex: "exchanges server (length (http_log w)) (map (\<lambda>c. post_request client_id tok (heap w c)) (c # rest)) =
              (req, resp) # exchanges server (Suc (length (http_log w)))
                 (map (\<lambda>c. post_request client_id tok (heap w c)) rest)"
    by (simp add: req_def resp_def)
  show ?case
  proof (cases "status resp = 200")
    case False
    then have na: "\<not> accepted (req, resp)" by (simp add: accepted_def)
    from False step have R: "create_global_commands fmt server client_id tok (c # rest) w
                               = (Inl (HTTPException resp (json resp)), w3)"
      by simp
    show ?thesis
      unfolding R ex using na by (auto simp: w3_def)
  next
    case True
    then have a: "accepted (req, resp)" by (simp add: accepted_def)
    from True step have R: "create_global_commands fmt server client_id tok (c # rest) w
                               = create_global_commands fmt server client_id tok rest w3"
      by simp
    have h3: "\<And>a. heap w3 a = (if a = c then strip_keys (heap w c) else heap w a)"
      by (simp add: w3_def)
    have pre: "\<forall>c'\<in>set rest. formats fmt client_id (heap w3 c')"
      using Cons.prems by (simp add: h3 formats_strip)
    have reqs: "map (\<lambda>c'. post_request client_id tok (heap w3 c')) rest =
                map (\<lambda>c'. post_request client_id tok (heap w c')) rest"
      by (simp add: h3 post_request_strip)
    have l3: "length (http_log w3) = Suc (length (http_log w))" "http_log w3 = http_log w @ [(req, resp)]" "now w3 = now w"
      by (simp_all add: w3_def)
    note IH = Cons.IH [OF pre Cons.prems(2), unfolded reqs l3]
    have heap_eq: "\<And>S a. (if a \<in> S then strip_keys (heap w3 a) else heap w3 a) =
                       (if a \<in> insert c S then strip_keys (heap w a) else heap w a)"
      by (simp add: h3 strip_keys_idem)
    show ?thesis
      unfolding R ex using a IH by (simp add: heap_eq)
  qed
qed

lemma str_int_7: "str_int 7 = ''7''"
  by code_simp

lemma str_int_42: "str_int 42 = ''42''"
  by code_simp

lemma format_default_7: "format_uri DEFAULT_URI 7 (VStr []) = Inr ''/applications/7/commands''"
  by (simp add: format_uri_def str_scalar_def DEFAULT_URI_def str_int_7)

lemma format_guild_7_42: "format_uri GUILD_URI 7 (VInt 42) = Inr ''/applications/7/guilds/42/commands''"
  by (simp add: format_uri_def str_scalar_def GUILD_URI_def str_int_7 str_int_42)

lemma formats_plain: "formats format_uri 7 (plain_schema n)"
  by (simp add: formats_def template_of_def guild_of_def dict_pop_def plain_schema_def format_default_7)

lemma formats_guild: "formats format_uri 7 guild_schema"
  by (simp add: formats_def template_of_def guild_of_def dict_pop_def guild_schema_def format_guild_7_42)

lemma formats_empty: "formats format_uri 7 []"
  by (simp add: formats_def template_of_def guild_of_def dict_pop_def format_default_7)

lemma exchanges_requests: "map fst (exchanges server n rs) = rs"
  by (induction rs arbitrary: n) simp_all

lemma strip_keys_removes:
  "dict_get (strip_keys d) ''uri'' = None \<and> dict_get (strip_keys d) ''guild_id'' = None"
  by (simp add: dict_get_def strip_keys_def delete_conv')

lemma formats_three:
  "\<forall>c\<in>set [0, 1, 2]. formats format_uri 7 (heap (world_with three_schemas) c)"
  by (simp add: world_with_def heap_of_def three_schemas_def formats_plain formats_guild)

text \<open>
  C5. Provided that formatting the path template of each schema raises nothing,
  \<open>create_global_commands\<close> appends to the log the POST of each schema in list order,
  with the answer it got, up to and including the first answer whose status is not
  200; it returns normally when every answer is 200 and otherwise raises
  \<open>HTTPException\<close> for that first answer. With three schemas and a second answer of
  status 500 the log holds exactly two requests, as the run after the theorem shows.
\<close>

theorem create_global_commands_posts_until_first_failure:
  assumes "\<forall>c\<in>set cs. formats fmt client_id (heap w c)" and "formats fmt client_id []"
  shows "let ex = exchanges server (length (http_log w))
                    (map (\<lambda>c. post_request client_id tok (heap w c)) cs);
             R = create_global_commands fmt server client_id tok cs w
         in http_log (snd R) = http_log w @ take (Suc (length (takeWhile accepted ex))) ex \<and>
            fst R = (case dropWhile accepted ex of
                       [] \<Rightarrow> Inr ()
                     | x # _ \<Rightarrow> Inl (HTTPException (snd x) (json (snd x))))"
  using create_global_commands_run [OF assms, of server tok] by (simp add: Let_def)

theorem create_global_commands_posts_until_first_failure_witness:
  "formats format_uri 7 (heap (world_with three_schemas) 0) \<and>
   formats format_uri 7 (heap (world_with three_schemas) 1) \<and>
   formats format_uri 7 (heap (world_with three_schemas) 2) \<and>
   formats format_uri 7 [] \<and>
   http_log (snd (create_global_commands format_uri second_fails 7 ''secret'' [0, 1, 2]
                    (world_with three_schemas))) =
     [(post_request 7 ''secret'' (plain_schema ''one''), \<lparr>status = 200, json = VDict []\<rparr>),
      (post_request 7 ''secret'' guild_schema, \<lparr>status = 500, json = VDict []\<rparr>)] \<and>
   fst (create_global_commands format_uri second_fails 7 ''secret'' [0, 1, 2]
          (world_with three_schemas)) =
     Inl (HTTPException \<lparr>status = 500, json = VDict []\<rparr> (VDict []))"
proof -
  have w: "http_log (world_with three_schemas) = []"
          "heap (world_with three_schemas) 0 = plain_schema ''one''"
          "heap (world_with three_schemas) (Suc 0) = guild_schema"
          "heap (world_with three_schemas) 2 = plain_schema ''three''"
    by (simp_all add: world_with_def heap_of_def three_schemas_def)
  show ?thesis
    using formats_three formats_empty
      create_global_commands_posts_until_first_failure
        [OF formats_three formats_empty, of second_fails "''secret''"]
    by (simp add: Let_def w second_fails_def accepted_def)
qed

text \<open>
  C8. The claim asks that the command of a guild be registered at the guild path. A
  command added with guild 42 gets the keys \<open>guild_id\<close> and \<open>uri\<close>, and formatting
  that \<open>uri\<close> gives \<open>/applications/7/guilds/42/commands\<close>; but the request
  \<open>create_global_commands\<close> issues for it goes to \<open>/applications/7/commands\<close>, the
  global path: the formatted \<open>uri\<close> is not used.
\<close>

theorem guild_command_posted_to_global_path:
  "add_command keep_short \<lparr>excluded = [], publish = []\<rparr> ping_command (Some 42) True []
     = (Inr (), \<lparr>excluded = [], publish = [guild_schema]\<rparr>) \<and>
   format_uri GUILD_URI 7 (VInt 42) = Inr ''/applications/7/guilds/42/commands'' \<and>
   map (\<lambda>x. (meth (fst x), url (fst x)))
     (http_log (snd (create_global_commands format_uri ok_server 7 ''secret'' [0]
                       (world_with [guild_schema]))))
     = [(''POST'', ''https://discord.com/api/v8/applications/7/commands'')]"
proof -
  have a: "add_command keep_short \<lparr>excluded = [], publish = []\<rparr> ping_command (Some 42) True []
     = (Inr (), \<lparr>excluded = [], publish = [guild_schema]\<rparr>)"
    by (simp add: add_command_def ping_command_def guild_schema_def keep_short_def dict_set_def
        isinstance_Command_def iter_dict_def)
  have h: "heap (world_with [guild_schema]) 0 = guild_schema"
    by (simp add: world_with_def heap_of_def)
  have f: "formats format_uri 7 (heap (world_with [guild_schema]) 0)"
    by (simp add: h formats_guild)
  have r: "create_global_commands format_uri ok_server 7 ''secret'' [0] (world_with [guild_schema])
        = (Inr (), (world_with [guild_schema])
             \<lparr>heap := (heap (world_with [guild_schema]))(0 := strip_keys guild_schema),
              http_log := [(post_request 7 ''secret'' guild_schema, \<lparr>status = 200, json = VDict []\<rparr>)]\<rparr>)"
    by (subst create_global_commands_step [OF f])
       (simp add: Let_def ok_server_def world_with_def heap_of_def)
  show ?thesis
    unfolding r
    by (simp add: a format_guild_7_42 post_request_def global_url_def BASE_def str_int_7)
qed

text \<open>
  C10. The claim asks that the keys be removed from every mapping passed. When the
  first POST is answered with status 500 the call stops there, and the second mapping
  still holds \<open>uri\<close> and \<open>guild_id\<close>.
\<close>

theorem later_schema_keeps_its_keys:
  "dict_get (heap (snd (create_global_commands format_uri failing_server 7 ''secret'' [0, 1]
                          (world_with [plain_schema ''one'', guild_schema]))) 1) ''uri''
     = Some (VStr GUILD_URI) \<and>
   dict_get (heap (snd (create_global_commands format_uri failing_server 7 ''secret'' [0, 1]
                          (world_with [plain_schema ''one'', guild_schema]))) 1) ''guild_id''
     = Some (VInt 42)"
proof -
  have f: "\<forall>c\<in>set [0, 1]. formats format_uri 7 (heap (world_with [plain_schema ''one'', guild_schema]) c)"
    by (simp add: world_with_def heap_of_def formats_plain formats_guild)
  have w: "http_log (world_with [plain_schema ''one'', guild_schema]) = []"
          "heap (world_with [plain_schema ''one'', guild_schema]) (Suc 0) = guild_schema"
    by (simp_all add: world_with_def heap_of_def)
  have h: "heap (snd (create_global_commands format_uri failing_server 7 ''secret'' [0, 1]
                          (world_with [plain_schema ''one'', guild_schema]))) 1 = guild_schema"
    using create_global_commands_run [OF f formats_empty, of failing_server "''secret''"]
    by (simp add: w failing_server_def accepted_def)
  show ?thesis
    unfolding h by (simp add: guild_schema_def dict_get_def)
qed

text \<open>
  C10, as amended. Provided that formatting the path template of each schema raises
  nothing: every mapping the loop reaches (those up to and including the first whose
  POST is not answered with 200, all of them when every answer is 200) has lost the
  keys \<open>uri\<close> and \<open>guild_id\<close> in the caller's heap, every other object of the heap
  is untouched, and no body posted holds either key.
\<close>

theorem create_global_commands_strips_reached_schemas:
  assumes "\<forall>c\<in>set cs. formats fmt client_id (heap w c)" and "formats fmt client_id []"
  shows "let ex = exchanges server (length (http_log w))
                    (map (\<lambda>c. post_request client_id tok (heap w c)) cs);
             reached = take (Suc (length (takeWhile accepted ex))) cs;
             R = create_global_commands fmt server client_id tok cs w
         in (\<forall>a\<in>set reached. dict_get (heap (snd R) a) ''uri'' = None \<and>
                              dict_get (heap (snd R) a) ''guild_id'' = None) \<and>
            (\<forall>a. a \<notin> set reached \<longrightarrow> heap (snd R) a = heap w a) \<and>
            (\<forall>x\<in>set (drop (length (http_log w)) (http_log (snd R))).
               \<exists>d. data (fst x) = Some (VDict d) \<and> dict_get d ''uri'' = None \<and>
                   dict_get d ''guild_id'' = None)"
proof -
  define reqs where "reqs = map (\<lambda>c. post_request client_id tok (heap w c)) cs"
  define ex where "ex = exchanges server (length (http_log w)) reqs"
  define k where "k = Suc (length (takeWhile accepted ex))"
  define R where "R = create_global_commands fmt server client_id tok cs w"
  note run = create_global_commands_run [OF assms, of server tok, folded reqs_def,
      folded ex_def, folded k_def, folded R_def]
  have lg: "http_log (snd R) = http_log w @ take k ex"
    and hp: "heap (snd R) = (\<lambda>a. if a \<in> set (take k cs) then strip_keys (heap w a) else heap w a)"
    using run by simp_all
  have a1: "\<forall>a\<in>set (take k cs). dict_get (heap (snd R) a) ''uri'' = None \<and>
                              dict_get (heap (snd R) a) ''guild_id'' = None"
    by (simp add: hp strip_keys_removes)
  have a2: "\<forall>a. a \<notin> set (take k cs) \<longrightarrow> heap (snd R) a = heap w a"
    by (simp add: hp)
  have a3: "\<forall>x\<in>set (drop (length (http_log w)) (http_log (snd R))).
               \<exists>d. data (fst x) = Some (VDict d) \<and> dict_get d ''uri'' = None \<and>
                   dict_get d ''guild_id'' = None"
  proof
    fix x assume "x \<in> set (drop (length (http_log w)) (http_log (snd R)))"
    then have "x \<in> set ex" by (auto simp: lg dest: in_set_takeD)
    then have "fst x \<in> set (map fst ex)" by simp
    then have "fst x \<in> set reqs" by (simp add: ex_def exchanges_requests)
    then obtain c where "fst x = post_request client_id tok (heap w c)"
      by (auto simp: reqs_def)
    then show "\<exists>d. data (fst x) = Some (VDict d) \<and> dict_get d ''uri'' = None \<and>
                   dict_get d ''guild_id'' = None"
      by (simp add: post_request_def strip_keys_removes)
  qed
  from a1 a2 a3 show ?thesis
    by (simp add: Let_def reqs_def ex_def k_def R_def)
qed

theorem create_global_commands_strips_reached_schemas_witness:
  "formats format_uri 7 (heap (world_with [guild_schema, plain_schema ''two'']) 0) \<and>
   formats format_uri 7 (heap (world_with [guild_schema, plain_schema ''two'']) 1) \<and>
   formats format_uri 7 [] \<and>
   dict_get (heap (snd (create_global_commands format_uri ok_server 7 ''secret'' [0, 1]
                          (world_with [guild_schema, plain_schema ''two'']))) 0) ''uri'' = None \<and>
   dict_get (heap (snd (create_global_commands format_uri ok_server 7 ''secret'' [0, 1]
                          (world_with [guild_schema, plain_schema ''two'']))) 0) ''guild_id'' = None \<and>
   dict_get (heap (world_with [guild_schema, plain_schema ''two'']) 0) ''uri'' = Some (VStr GUILD_URI)"
proof -
  have f: "\<forall>c\<in>set [0, 1]. formats format_uri 7 (heap (world_with [guild_schema, plain_schema ''two'']) c)"
    by (simp add: world_with_def heap_of_def formats_plain formats_guild)
  have w: "http_log (world_with [guild_schema, plain_schema ''two'']) = []"
          "heap (world_with [guild_schema, plain_schema ''two'']) 0 = guild_schema"
    by (simp_all add: world_with_def heap_of_def)
  have b: "dict_get guild_schema ''uri'' = Some (VStr GUILD_URI)"
    by (simp add: guild_schema_def dict_get_def)
  show ?thesis
    using f formats_empty
      create_global_commands_strips_reached_schemas [OF f formats_empty, of ok_server "''secret''"]
    by (simp add: Let_def w b ok_server_def accepted_def)
qed

section \<open>Properties of schema validation\<close>
















end
